theory Spec2Isabelle
  imports Main
begin

text \<open>
  The todo API: registration, login, the authentication middleware and the todo handlers
  of the Express application, in its three variants \<^verbatim>\<open>src/index.js\<close> (constant
  secret, no validation), \<^verbatim>\<open>unnamed/part_000\<close> (parameter store, validation, welcome
  message by queue) and \<^verbatim>\<open>unnamed/part_001\<close> (handlers in \<^verbatim>\<open>try\<close>). A handler is a
  function from the world around it and the request to what it does with the request and
  the world it leaves. A definition with no variant in its name is that of
  \<^verbatim>\<open>unnamed/part_000\<close>.
\<close>

section \<open>JSON values and the JavaScript operations the handlers apply to them\<close>

text \<open>
  Request bodies, stored items and token payloads are JSON values. A JavaScript value
  that may be \<^verbatim>\<open>undefined\<close> is a \<open>json option\<close>, with \<open>None\<close> for
  \<^verbatim>\<open>undefined\<close>. A \<open>JObj\<close> lists the own properties of an object, the first
  entry of a name being the property. \<open>JNum\<close> carries the integer-valued numbers below
  \<open>10^21\<close> in magnitude, which JavaScript renders in plain decimal; a \<open>string\<close> lists
  the code units of a JavaScript string.
\<close>

datatype json =
    JNull
  | JBool bool
  | JNum int
  | JStr string
  | JArr "json list"
  | JObj "(string \<times> json) list"

datatype js_error = TypeError | MarshallError | ServiceError

fun digits :: "nat \<Rightarrow> string" where
  "digits n =
     (if n < 10 then [''0123456789'' ! n]
      else digits (n div 10) @ [''0123456789'' ! (n mod 10)])"

declare digits.simps [simp del]

fun join_comma :: "string list \<Rightarrow> string" where
  "join_comma [] = []"
| "join_comma [s] = s"
| "join_comma (s # t # ss) = s @ '','' @ join_comma (t # ss)"

text \<open>\<^verbatim>\<open>String(v)\<close>, as a template literal and string concatenation apply it.\<close>

fun to_string :: "json \<Rightarrow> string" where
  "to_string JNull = ''null''"
| "to_string (JBool b) = (if b then ''true'' else ''false'')"
| "to_string (JNum n) = (if n < 0 then CHR ''-'' # digits (nat (- n)) else digits (nat n))"
| "to_string (JStr s) = s"
| "to_string (JArr xs) =
     join_comma (map (\<lambda>x. if x = JNull then [] else to_string x) xs)"
| "to_string (JObj kvs) = ''[object Object]''"

definition template :: "json option \<Rightarrow> string" where
  "template v = (case v of None \<Rightarrow> ''undefined'' | Some x \<Rightarrow> to_string x)"

text \<open>
  Property access \<^verbatim>\<open>v.name\<close> for the property names the handlers use (none of
  them an array index): reading a property of \<^verbatim>\<open>null\<close> or \<^verbatim>\<open>undefined\<close>
  throws a TypeError.
\<close>

fun property :: "json \<Rightarrow> string \<Rightarrow> json option" where
  "property (JObj kvs) name = map_of kvs name"
| "property (JArr xs) name = (if name = ''length'' then Some (JNum (int (length xs))) else None)"
| "property (JStr s) name = (if name = ''length'' then Some (JNum (int (length s))) else None)"
| "property v name = None"

definition get_prop :: "json option \<Rightarrow> string \<Rightarrow> js_error + json option" where
  "get_prop v name =
     (case v of
        None \<Rightarrow> Inl TypeError
      | Some JNull \<Rightarrow> Inl TypeError
      | Some x \<Rightarrow> Inr (property x name))"

text \<open>
  \<^verbatim>\<open>body.hasOwnProperty(field)\<close>: the method is inherited, so an own property of
  that name (a JSON value, never a function) makes the call throw.
\<close>

fun hasOwnProperty :: "json \<Rightarrow> string \<Rightarrow> js_error + bool" where
  "hasOwnProperty JNull field = Inl TypeError"
| "hasOwnProperty (JObj kvs) field =
     (if map_of kvs ''hasOwnProperty'' \<noteq> None then Inl TypeError
      else Inr (map_of kvs field \<noteq> None))"
| "hasOwnProperty (JArr xs) field = Inr (field = ''length'')"
| "hasOwnProperty (JStr s) field = Inr (field = ''length'')"
| "hasOwnProperty v field = Inr False"

text \<open>\<^verbatim>\<open>a.split(' ')\<close> and \<^verbatim>\<open>xs[i]\<close>, which is \<^verbatim>\<open>undefined\<close> out of range.\<close>

fun js_split :: "char \<Rightarrow> string \<Rightarrow> string list" where
  "js_split sep [] = [[]]"
| "js_split sep (c # cs) =
     (if c = sep then [] # js_split sep cs
      else (case js_split sep cs of [] \<Rightarrow> [[c]] | w # ws \<Rightarrow> (c # w) # ws))"

definition index :: "'a list \<Rightarrow> nat \<Rightarrow> 'a option" where
  "index xs i = (if i < length xs then Some (xs ! i) else None)"

section \<open>Libraries the handlers call\<close>

text \<open>
  The cryptographic and encoding functions of the packages the application requires,
  taken as parameters: \<open>pbkdf2Sync password salt iterations keylen digest\<close> is the hex
  rendering of the derived key; \<open>hmac secret payload\<close> is the signature of a token
  payload under a secret; \<open>jwt_encode\<close> and \<open>jwt_decode\<close> write and read the compact
  serialisation of a payload with its signature; \<open>string_lt_3 s\<close> tells whether the
  number a string converts to is below 3; \<open>marshall_instance v\<close> is what
  \<^verbatim>\<open>marshall\<close> makes of an object that passes for an instance of a class (see
  \<open>marshall_value\<close> below).
\<close>

text \<open>
  What \<^verbatim>\<open>marshall\<close> makes of a value: it throws, or it gives an attribute value that
  the client cannot send, or it gives an attribute value, kept here as the JSON value
  that \<^verbatim>\<open>unmarshall\<close> reads back from it.
\<close>

datatype marshalled = Thrown js_error | Unsendable | Attribute json

record lib =
  pbkdf2Sync :: "string \<Rightarrow> string \<Rightarrow> nat \<Rightarrow> nat \<Rightarrow> string \<Rightarrow> string"
  hmac :: "string \<Rightarrow> json \<Rightarrow> string"
  jwt_encode :: "json \<Rightarrow> string \<Rightarrow> string"
  jwt_decode :: "string \<Rightarrow> (json \<times> string) option"
  string_lt_3 :: "string \<Rightarrow> bool"
  marshall_instance :: "json \<Rightarrow> marshalled"

record password_options =
  iteration :: nat
  keylen :: nat
  digest :: string

definition passwordOptions :: password_options where
  "passwordOptions = \<lparr>iteration = 1000, keylen = 64, digest = ''sha512''\<rparr>"

text \<open>
  \<^verbatim>\<open>crypto.pbkdf2Sync(password, salt, ...).toString('hex')\<close> on JavaScript values:
  of the values JSON can carry, only strings are accepted; anything else throws.
\<close>

definition hash_password :: "lib \<Rightarrow> json option \<Rightarrow> json option \<Rightarrow> js_error + string" where
  "hash_password l password salt =
     (case (password, salt) of
        (Some (JStr p), Some (JStr s)) \<Rightarrow>
          Inr (pbkdf2Sync l p s (iteration passwordOptions) (keylen passwordOptions)
                 (digest passwordOptions))
      | _ \<Rightarrow> Inl TypeError)"

datatype jwt_error = MalformedToken | InvalidSignature | TokenExpired

text \<open>
  Modelled from the spec: the Token Service, \<^verbatim>\<open>jwt.sign\<close> and \<^verbatim>\<open>jwt.verify\<close>
  of the jsonwebtoken package, whose code is not part of the sources. A token is the
  serialisation of the payload with its signature under the secret. Verification fails on
  a malformed token, on a signature mismatch and on expiry, \<open>now > expiresAt\<close>, and
  otherwise returns the payload.
\<close>

definition jwt_sign :: "lib \<Rightarrow> json \<Rightarrow> string \<Rightarrow> string" where
  "jwt_sign l payload secret = jwt_encode l payload (hmac l secret payload)"

text \<open>
  Modelled from the spec: \<^verbatim>\<open>verify(token, secret)\<close> of the Token Service, at the time
  \<open>now\<close> in seconds.
\<close>

definition jwt_verify :: "lib \<Rightarrow> string \<Rightarrow> string \<Rightarrow> int \<Rightarrow> jwt_error + json" where
  "jwt_verify l token secret now =
     (case jwt_decode l token of
        None \<Rightarrow> Inl MalformedToken
      | Some (payload, signature) \<Rightarrow>
          if signature \<noteq> hmac l secret payload then Inl InvalidSignature
          else (case property payload ''exp'' of
                  Some (JNum expiresAt) \<Rightarrow>
                    if now > expiresAt then Inl TokenExpired else Inr payload
                | _ \<Rightarrow> Inr payload))"

section \<open>The services around the application\<close>

text \<open>
  The world a handler runs in: the DynamoDB table, keyed by \<open>(pk, sk)\<close> and holding each
  item as \<^verbatim>\<open>unmarshall\<close> reads it back; whether the
  table answers reads and writes; the parameter store; whether the queue accepts a
  message; the clock in milliseconds and as an ISO string; the next random salt; and the
  trace of the service calls made so far.
\<close>

datatype event =
    GetItem string string
  | PutItem json
  | PutUnsendable string string
  | GetParameter string
  | SendMessage string json

record world =
  table :: "string \<times> string \<Rightarrow> json option"
  get_item_ok :: bool
  put_item_ok :: bool
  parameters :: "string \<Rightarrow> string option"
  send_message_ok :: bool
  date_now :: int
  date_iso :: string
  random_hex :: string
  parameterStoreJwtSecretName :: string
  sqsQueueUrl :: string
  trace :: "event list"

definition GetItemCommand :: "world \<Rightarrow> string \<Rightarrow> string \<Rightarrow> (js_error + json option) \<times> world" where
  "GetItemCommand w pk sk =
     (if get_item_ok w then Inr (table w (pk, sk)) else Inl ServiceError,
      w\<lparr>trace := trace w @ [GetItem pk sk]\<rparr>)"

text \<open>
  \<^verbatim>\<open>marshall\<close> of the util-dynamodb package, value by value. A number beyond the safe
  integers makes it throw. An array is converted item by item. An object is told by its
  \<^verbatim>\<open>constructor\<close>: with no own property of that name, or with one whose
  \<^verbatim>\<open>name\<close> is \<^verbatim>\<open>Object\<close>, it is converted entry by entry; with one that is truthy
  and has no string for a \<^verbatim>\<open>name\<close>, \<^verbatim>\<open>marshall\<close> throws; with one that is falsy
  or has another \<^verbatim>\<open>name\<close>, the outcome depends on the name and on the version of the
  package, and is left to \<open>marshall_instance\<close>. Conversion stops at the first throw. An
  entry named \<^verbatim>\<open>__proto__\<close> is converted and then lost, since it is assigned to the
  result and not defined on it.
\<close>

definition MAX_SAFE_INTEGER :: int where
  "MAX_SAFE_INTEGER = 9007199254740991"

definition falsy :: "json \<Rightarrow> bool" where
  "falsy v = (v = JNull \<or> v = JBool False \<or> v = JNum 0 \<or> v = JStr [])"

definition constructor_name :: "json \<Rightarrow> string option" where
  "constructor_name c =
     (case c of
        JObj kvs \<Rightarrow> (case map_of kvs ''name'' of Some (JStr n) \<Rightarrow> Some n | _ \<Rightarrow> None)
      | _ \<Rightarrow> None)"

fun collect_items :: "marshalled list \<Rightarrow> marshalled" where
  "collect_items [] = Attribute (JArr [])"
| "collect_items (m # ms) =
     (case m of
        Thrown e \<Rightarrow> Thrown e
      | _ \<Rightarrow>
          (case collect_items ms of
             Thrown e \<Rightarrow> Thrown e
           | r \<Rightarrow>
               (case (m, r) of
                  (Attribute v, Attribute (JArr vs)) \<Rightarrow> Attribute (JArr (v # vs))
                | _ \<Rightarrow> Unsendable)))"

fun collect_entries :: "(string \<times> marshalled) list \<Rightarrow> marshalled" where
  "collect_entries [] = Attribute (JObj [])"
| "collect_entries ((k, m) # rest) =
     (case m of
        Thrown e \<Rightarrow> Thrown e
      | _ \<Rightarrow>
          (case collect_entries rest of
             Thrown e \<Rightarrow> Thrown e
           | r \<Rightarrow>
               if k = ''__proto__'' then r
               else
                 (case (m, r) of
                    (Attribute v, Attribute (JObj kvs)) \<Rightarrow> Attribute (JObj ((k, v) # kvs))
                  | _ \<Rightarrow> Unsendable)))"

fun marshall_value :: "lib \<Rightarrow> json \<Rightarrow> marshalled" where
  "marshall_value l JNull = Attribute JNull"
| "marshall_value l (JBool b) = Attribute (JBool b)"
| "marshall_value l (JNum n) =
     (if n > MAX_SAFE_INTEGER \<or> n < - MAX_SAFE_INTEGER then Thrown MarshallError
      else Attribute (JNum n))"
| "marshall_value l (JStr s) = Attribute (JStr s)"
| "marshall_value l (JArr xs) = collect_items (map (marshall_value l) xs)"
| "marshall_value l (JObj kvs) =
     (case map_of kvs ''constructor'' of
        None \<Rightarrow> collect_entries (map (\<lambda>kv. (fst kv, marshall_value l (snd kv))) kvs)
      | Some c \<Rightarrow>
          if falsy c then marshall_instance l (JObj kvs)
          else
            (case constructor_name c of
               None \<Rightarrow> Thrown MarshallError
             | Some n \<Rightarrow>
                 if n = ''Object''
                 then collect_entries (map (\<lambda>kv. (fst kv, marshall_value l (snd kv))) kvs)
                 else marshall_instance l (JObj kvs)))"

text \<open>
  \<^verbatim>\<open>marshall\<close> of an object literal, whose properties may be \<^verbatim>\<open>undefined\<close>: that
  makes it throw.
\<close>

definition marshall :: "lib \<Rightarrow> (string \<times> json option) list \<Rightarrow> marshalled" where
  "marshall l literal =
     collect_entries
       (map (\<lambda>kv. (fst kv,
                    case snd kv of None \<Rightarrow> Thrown MarshallError | Some v \<Rightarrow> marshall_value l v))
          literal)"

definition PutItemCommand :: "world \<Rightarrow> string \<Rightarrow> string \<Rightarrow> json \<Rightarrow> (js_error + unit) \<times> world" where
  "PutItemCommand w pk sk item =
     (if put_item_ok w then Inr () else Inl ServiceError,
      w\<lparr>table := if put_item_ok w then (table w)((pk, sk) \<mapsto> item) else table w,
        trace := trace w @ [PutItem item]\<rparr>)"

text \<open>The client is given an item that it cannot send: the call fails and nothing is written.\<close>

definition PutItemUnsendable :: "world \<Rightarrow> string \<Rightarrow> string \<Rightarrow> (js_error + unit) \<times> world" where
  "PutItemUnsendable w pk sk =
     (Inl ServiceError, w\<lparr>trace := trace w @ [PutUnsendable pk sk]\<rparr>)"

definition getParameterStore :: "world \<Rightarrow> string \<Rightarrow> (js_error + string) \<times> world" where
  "getParameterStore w name =
     (case parameters w name of None \<Rightarrow> Inl ServiceError | Some v \<Rightarrow> Inr v,
      w\<lparr>trace := trace w @ [GetParameter name]\<rparr>)"

definition sendWelcomeEmail :: "world \<Rightarrow> json option \<Rightarrow> (js_error + unit) \<times> world" where
  "sendWelcomeEmail w username =
     (if send_message_ok w then Inr () else Inl ServiceError,
      w\<lparr>trace := trace w @
         [SendMessage (sqsQueueUrl w)
            (JObj (case username of None \<Rightarrow> [] | Some u \<Rightarrow> [(''username'', u)]))]\<rparr>)"

section \<open>Responses\<close>

datatype content = Json json | Text string | Empty

record response =
  status :: nat
  content :: content

text \<open>
  What a handler does with a request: it sends a response, passes on to the next handler
  with \<^verbatim>\<open>req.user\<close> set, passes an error to the error handler, or (an
  \<^verbatim>\<open>async\<close> handler that throws outside any \<^verbatim>\<open>try\<close>) ends in a rejected
  promise with no response sent.
\<close>

datatype outcome =
    Respond response
  | Next json
  | NextError js_error
  | Rejected js_error

definition res_json :: "nat \<Rightarrow> json option \<Rightarrow> response" where
  "res_json code v =
     \<lparr>status = code, content = (case v of None \<Rightarrow> Empty | Some x \<Rightarrow> Json x)\<rparr>"

text \<open>\<^verbatim>\<open>res.send\<close> of a string sends it as text; of an object it is \<^verbatim>\<open>res.json\<close>.\<close>

definition res_send :: "nat \<Rightarrow> json \<Rightarrow> response" where
  "res_send code v =
     (case v of JStr s \<Rightarrow> \<lparr>status = code, content = Text s\<rparr> | _ \<Rightarrow> res_json code (Some v))"

definition message :: "string \<Rightarrow> json" where
  "message m = JObj [(''message'', JStr m)]"

definition unauthorized :: response where
  "unauthorized = \<lparr>status = 401, content = Json (message ''Unauthorized'')\<rparr>"

section \<open>The authentication middleware\<close>

text \<open>\<^verbatim>\<open>authMiddleware\<close> of the variants that fetch the secret from the parameter store.\<close>

definition authMiddleware :: "lib \<Rightarrow> world \<Rightarrow> string option \<Rightarrow> outcome \<times> world" where
  "authMiddleware l w authorization =
     (case authorization of
        None \<Rightarrow> (Respond (res_json 401 (Some (message ''Unauthorized''))), w)
      | Some authHeader \<Rightarrow>
          if authHeader = [] then (Respond (res_json 401 (Some (message ''Unauthorized''))), w)
          else
            (case index (js_split CHR '' '' authHeader) 1 of
               None \<Rightarrow> (Respond (res_send 401 (message ''Unauthorized'')), w)
             | Some token \<Rightarrow>
                 if token = [] then (Respond (res_send 401 (message ''Unauthorized'')), w)
                 else
                   (case getParameterStore w (parameterStoreJwtSecretName w) of
                      (Inl e, w1) \<Rightarrow> (Respond (res_send 401 (message ''Unauthorized'')), w1)
                    | (Inr secretKey, w1) \<Rightarrow>
                        (case jwt_verify l token secretKey (date_now w1 div 1000) of
                           Inl e \<Rightarrow> (Respond (res_send 401 (message ''Unauthorized'')), w1)
                         | Inr decoded \<Rightarrow> (Next decoded, w1)))))"

text \<open>\<^verbatim>\<open>authMiddleware\<close> of \<^verbatim>\<open>src/index.js\<close>, whose secret is a constant.\<close>

definition secretKey_index :: string where
  "secretKey_index = ''mysecretkey''"

definition authMiddleware_index :: "lib \<Rightarrow> world \<Rightarrow> string option \<Rightarrow> outcome \<times> world" where
  "authMiddleware_index l w authorization =
     (case authorization of
        None \<Rightarrow> (Respond (res_json 401 (Some (message ''Unauthorized''))), w)
      | Some authHeader \<Rightarrow>
          if authHeader = [] then (Respond (res_json 401 (Some (message ''Unauthorized''))), w)
          else
            (case index (js_split CHR '' '' authHeader) 1 of
               None \<Rightarrow> (Respond (res_send 401 (message ''Unauthorized'')), w)
             | Some token \<Rightarrow>
                 if token = [] then (Respond (res_send 401 (message ''Unauthorized'')), w)
                 else
                   (case jwt_verify l token secretKey_index (date_now w div 1000) of
                      Inl e \<Rightarrow> (Respond (res_send 401 (message ''Unauthorized'')), w)
                    | Inr decoded \<Rightarrow> (Next decoded, w))))"

section \<open>Registration\<close>

definition required :: "string list" where
  "required = [''username'', ''password'', ''fullname'', ''email'']"

definition quoted :: "string \<Rightarrow> string" where
  "quoted s = [CHR 0x22] @ s @ [CHR 0x22]"

text \<open>
  The comparison \<^verbatim>\<open>v < 3\<close>: \<^verbatim>\<open>undefined\<close> is below nothing,
  \<^verbatim>\<open>null\<close> and the booleans convert to 0 and 1, and a string, an array or an
  object is compared through the number its string converts to.
\<close>

definition js_lt_3 :: "lib \<Rightarrow> json option \<Rightarrow> bool" where
  "js_lt_3 l v =
     (case v of
        None \<Rightarrow> False
      | Some (JNum n) \<Rightarrow> n < 3
      | Some JNull \<Rightarrow> True
      | Some (JBool b) \<Rightarrow> True
      | Some x \<Rightarrow> string_lt_3 l (to_string x))"

text \<open>The validation loop of \<^verbatim>\<open>app.post('/register')\<close> over the required fields.\<close>

fun validate :: "lib \<Rightarrow> json \<Rightarrow> string list \<Rightarrow> js_error + response option" where
  "validate l body [] = Inr None"
| "validate l body (field # rest) =
     (case hasOwnProperty body field of
        Inl e \<Rightarrow> Inl e
      | Inr present \<Rightarrow>
          if present = False then
            Inr (Some (res_json 400
              (Some (message (''Missing '' @ quoted field @ '' attribute'')))))
          else
            (case get_prop (property body field) ''length'' of
               Inl e \<Rightarrow> Inl e
             | Inr len \<Rightarrow>
                 if js_lt_3 l len then
                   Inr (Some (res_json 400
                     (Some (message (''Value of '' @ quoted field @ '' is too short'')))))
                 else validate l body rest))"

text \<open>
  \<^verbatim>\<open>app.post('/register')\<close> with the validation loop and the welcome message. The keys
  and the date of the item are strings, so the outcome of \<^verbatim>\<open>marshall(userItem)\<close> is that
  of the user object in it.
\<close>

definition post_register :: "lib \<Rightarrow> world \<Rightarrow> json \<Rightarrow> outcome \<times> world" where
  "post_register l w body =
     (case validate l body required of
        Inl e \<Rightarrow> (Rejected e, w)
      | Inr (Some r) \<Rightarrow> (Respond r, w)
      | Inr None \<Rightarrow>
          (let username = property body ''username'';
               password = property body ''password'';
               email = property body ''email'';
               fullname = property body ''fullname''
           in case GetItemCommand w (''user#'' @ template username) ''user'' of
                (Inl e, w1) \<Rightarrow> (Rejected e, w1)
              | (Inr (Some existing), w1) \<Rightarrow>
                  (Respond (res_json 400 (Some (message ''Username already taken''))), w1)
              | (Inr None, w1) \<Rightarrow>
                  (let salt = random_hex w1 in
                   case hash_password l password (Some (JStr salt)) of
                     Inl e \<Rightarrow> (Rejected e, w1)
                   | Inr hashedPassword \<Rightarrow>
                       (case marshall l
                               [(''username'', username),
                                (''password'', Some (JStr hashedPassword)),
                                (''salt'', Some (JStr salt)),
                                (''fullname'', fullname),
                                (''email'', email)] of
                          Thrown e \<Rightarrow> (Rejected e, w1)
                        | Unsendable \<Rightarrow>
                            (Rejected ServiceError,
                             snd (PutItemUnsendable w1 (''user#'' @ template username) ''user''))
                        | Attribute user \<Rightarrow>
                            (case PutItemCommand w1 (''user#'' @ template username) ''user''
                                    (JObj [(''pk'', JStr (''user#'' @ template username)),
                                           (''sk'', JStr ''user''),
                                           (''data'', user),
                                           (''created_at'', JStr (date_iso w1))]) of
                               (Inl e, w2) \<Rightarrow> (Rejected e, w2)
                             | (Inr u, w2) \<Rightarrow>
                                 (case sendWelcomeEmail w2 username of
                                    (Inl e, w3) \<Rightarrow> (Rejected e, w3)
                                  | (Inr u', w3) \<Rightarrow>
                                      (Respond (res_json 201
                                         (Some (message ''User registered successfully''))),
                                       w3)))))))"

text \<open>\<^verbatim>\<open>app.post('/register')\<close> of \<^verbatim>\<open>src/index.js\<close>: no validation, no welcome message.\<close>

definition post_register_index :: "lib \<Rightarrow> world \<Rightarrow> json \<Rightarrow> outcome \<times> world" where
  "post_register_index l w body =
     (case get_prop (Some body) ''username'' of
        Inl e \<Rightarrow> (Rejected e, w)
      | Inr username \<Rightarrow>
          (let password = property body ''password''
           in case GetItemCommand w (''user#'' @ template username) ''user'' of
                (Inl e, w1) \<Rightarrow> (Rejected e, w1)
              | (Inr (Some existing), w1) \<Rightarrow>
                  (Respond (res_json 400 (Some (message ''Username already taken''))), w1)
              | (Inr None, w1) \<Rightarrow>
                  (let salt = random_hex w1 in
                   case hash_password l password (Some (JStr salt)) of
                     Inl e \<Rightarrow> (Rejected e, w1)
                   | Inr hashedPassword \<Rightarrow>
                       (case marshall l
                               [(''username'', username),
                                (''password'', Some (JStr hashedPassword)),
                                (''salt'', Some (JStr salt))] of
                          Thrown e \<Rightarrow> (Rejected e, w1)
                        | Unsendable \<Rightarrow>
                            (Rejected ServiceError,
                             snd (PutItemUnsendable w1 (''user#'' @ template username) ''user''))
                        | Attribute user \<Rightarrow>
                            (case PutItemCommand w1 (''user#'' @ template username) ''user''
                                    (JObj [(''pk'', JStr (''user#'' @ template username)),
                                           (''sk'', JStr ''user''),
                                           (''data'', user),
                                           (''created_at'', JStr (date_iso w1))]) of
                               (Inl e, w2) \<Rightarrow> (Rejected e, w2)
                             | (Inr u, w2) \<Rightarrow>
                                 (Respond (res_json 201
                                    (Some (message ''User registered successfully''))),
                                  w2))))))"

section \<open>Login\<close>

text \<open>The properties of an object literal that are not \<^verbatim>\<open>undefined\<close>, as a token payload keeps them.\<close>

fun defined :: "(string \<times> json option) list \<Rightarrow> (string \<times> json) list" where
  "defined [] = []"
| "defined ((k, None) # kvs) = defined kvs"
| "defined ((k, Some v) # kvs) = (k, v) # defined kvs"

text \<open>\<^verbatim>\<open>app.post('/login')\<close> of \<^verbatim>\<open>unnamed/part_000\<close>.\<close>

definition post_login :: "lib \<Rightarrow> world \<Rightarrow> json \<Rightarrow> outcome \<times> world" where
  "post_login l w body =
     (case get_prop (Some body) ''username'' of
        Inl e \<Rightarrow> (Rejected e, w)
      | Inr username \<Rightarrow>
          (let password = property body ''password''
           in case GetItemCommand w (''user#'' @ template username) ''user'' of
                (Inl e, w1) \<Rightarrow> (Rejected e, w1)
              | (Inr None, w1) \<Rightarrow>
                  (Respond (res_json 401 (Some (message ''Invalid username or password''))), w1)
              | (Inr (Some userItem), w1) \<Rightarrow>
                  (case property userItem ''data'' of
                     None \<Rightarrow> (Rejected TypeError, w1)
                   | Some data \<Rightarrow>
                   (case get_prop (Some data) ''salt'' of
                     Inl e \<Rightarrow> (Rejected e, w1)
                   | Inr salt \<Rightarrow>
                       (case hash_password l password salt of
                          Inl e \<Rightarrow> (Rejected e, w1)
                        | Inr hashedPassword \<Rightarrow>
                            if Some (JStr hashedPassword) \<noteq>
                               property data ''password''
                            then (Respond (res_send 401 (JStr ''Invalid username or password'')), w1)
                            else
                              (case getParameterStore w1 (parameterStoreJwtSecretName w1) of
                                 (Inl e, w2) \<Rightarrow> (Rejected e, w2)
                               | (Inr secretKey, w2) \<Rightarrow>
                                   (Respond (res_json 200 (Some (JObj
                                      [(''token'', JStr (jwt_sign l
                                          (JObj (defined
                                            [(''username'', username),
                                             (''email'', property data ''email''),
                                             (''exp'', Some (JNum (date_now w2 div 1000 + 60 * 60 * 12)))]))
                                          secretKey))]))),
                                    w2)))))))"

text \<open>\<^verbatim>\<open>app.post('/login')\<close> of \<^verbatim>\<open>src/index.js\<close>: a constant secret, no email claim.\<close>

definition post_login_index :: "lib \<Rightarrow> world \<Rightarrow> json \<Rightarrow> outcome \<times> world" where
  "post_login_index l w body =
     (case get_prop (Some body) ''username'' of
        Inl e \<Rightarrow> (Rejected e, w)
      | Inr username \<Rightarrow>
          (let password = property body ''password''
           in case GetItemCommand w (''user#'' @ template username) ''user'' of
                (Inl e, w1) \<Rightarrow> (Rejected e, w1)
              | (Inr None, w1) \<Rightarrow>
                  (Respond (res_json 401 (Some (message ''Invalid username or password''))), w1)
              | (Inr (Some userItem), w1) \<Rightarrow>
                  (case property userItem ''data'' of
                     None \<Rightarrow> (Rejected TypeError, w1)
                   | Some data \<Rightarrow>
                   (case get_prop (Some data) ''salt'' of
                     Inl e \<Rightarrow> (Rejected e, w1)
                   | Inr salt \<Rightarrow>
                       (case hash_password l password salt of
                          Inl e \<Rightarrow> (Rejected e, w1)
                        | Inr hashedPassword \<Rightarrow>
                            if Some (JStr hashedPassword) \<noteq>
                               property data ''password''
                            then (Respond (res_send 401 (JStr ''Invalid username or password'')), w1)
                            else
                              (Respond (res_json 200 (Some (JObj
                                 [(''token'', JStr (jwt_sign l
                                     (JObj (defined
                                       [(''username'', username),
                                        (''exp'', Some (JNum (date_now w1 div 1000 + 60 * 60 * 12)))]))
                                     secretKey_index))]))),
                               w1))))))"

text \<open>
  \<^verbatim>\<open>app.post('/login')\<close> of \<^verbatim>\<open>unnamed/part_001\<close>: the body of the handler is in a
  \<^verbatim>\<open>try\<close> whose \<^verbatim>\<open>catch\<close> passes the error on, and the wrong-password
  response is sent as an object.
\<close>

definition post_login_part001 :: "lib \<Rightarrow> world \<Rightarrow> json \<Rightarrow> outcome \<times> world" where
  "post_login_part001 l w body =
     (case get_prop (Some body) ''username'' of
        Inl e \<Rightarrow> (NextError e, w)
      | Inr username \<Rightarrow>
          (let password = property body ''password''
           in case GetItemCommand w (''user#'' @ template username) ''user'' of
                (Inl e, w1) \<Rightarrow> (NextError e, w1)
              | (Inr None, w1) \<Rightarrow>
                  (Respond (res_json 401 (Some (message ''Invalid username or password''))), w1)
              | (Inr (Some userItem), w1) \<Rightarrow>
                  (case property userItem ''data'' of
                     None \<Rightarrow> (NextError TypeError, w1)
                   | Some data \<Rightarrow>
                   (case get_prop (Some data) ''salt'' of
                     Inl e \<Rightarrow> (NextError e, w1)
                   | Inr salt \<Rightarrow>
                       (case hash_password l password salt of
                          Inl e \<Rightarrow> (NextError e, w1)
                        | Inr hashedPassword \<Rightarrow>
                            if Some (JStr hashedPassword) \<noteq>
                               property data ''password''
                            then (Respond (res_send 401 (message ''Invalid username or password'')), w1)
                            else
                              (case getParameterStore w1 (parameterStoreJwtSecretName w1) of
                                 (Inl e, w2) \<Rightarrow> (NextError e, w2)
                               | (Inr secretKey, w2) \<Rightarrow>
                                   (Respond (res_json 200 (Some (JObj
                                      [(''token'', JStr (jwt_sign l
                                          (JObj (defined
                                            [(''username'', username),
                                             (''email'', property data ''email''),
                                             (''exp'', Some (JNum (date_now w2 div 1000 + 60 * 60 * 12)))]))
                                          secretKey))]))),
                                    w2)))))))"

section \<open>Todos\<close>

text \<open>
  The handler of \<^verbatim>\<open>app.get('/todos/:id')\<close>, run once \<^verbatim>\<open>authMiddleware\<close> has set
  \<^verbatim>\<open>req.user\<close>; its body is in a \<^verbatim>\<open>try\<close> that passes an error on.
\<close>

definition get_todos_id :: "world \<Rightarrow> string \<Rightarrow> json \<Rightarrow> outcome \<times> world" where
  "get_todos_id w todo_id user =
     (if todo_id = [] then (Respond (res_json 200 (Some (JArr []))), w)
      else
        (case get_prop (Some user) ''username'' of
           Inl e \<Rightarrow> (NextError e, w)
         | Inr username \<Rightarrow>
             (case GetItemCommand w (''todo#'' @ todo_id) (''todo-'' @ template username) of
                (Inl e, w1) \<Rightarrow> (NextError e, w1)
              | (Inr None, w1) \<Rightarrow> (Respond (res_json 200 (Some (JArr []))), w1)
              | (Inr (Some item), w1) \<Rightarrow> (Respond (res_json 200 (property item ''data'')), w1))))"



text \<open>The routes: \<^verbatim>\<open>authMiddleware\<close>, then the handler when it passes the request on.\<close>

definition route_get_todos_id :: "lib \<Rightarrow> world \<Rightarrow> string option \<Rightarrow> string \<Rightarrow> outcome \<times> world" where
  "route_get_todos_id l w authorization todo_id =
     (case authMiddleware l w authorization of
        (Next user, w1) \<Rightarrow> get_todos_id w1 todo_id user
      | (out, w1) \<Rightarrow> (out, w1))"




section \<open>Sample values\<close>

text \<open>
  Stand-ins for the library functions, a world and requests, on which the theorems below
  are run. In \<open>sample_lib\<close> the derived key is the password followed by the salt, the
  signature of a payload is the secret followed by the payload's \<open>username\<close>, and the
  tokens that decode are \<open>good.token\<close>, the token of \<open>abc\<close> signed under \<open>s3cret\<close>,
  \<open>forged.token\<close>, the same signature on another payload, and \<open>index.token\<close>, the
  token of \<open>abc\<close> signed under the constant secret of \<^verbatim>\<open>src/index.js\<close>.
\<close>

definition sample_payload :: json where
  "sample_payload =
     JObj [(''username'', JStr ''abc''), (''email'', JStr ''a@b.com''), (''exp'', JNum 43205)]"

definition forged_payload :: json where
  "forged_payload =
     JObj [(''username'', JStr ''root''), (''email'', JStr ''a@b.com''), (''exp'', JNum 43205)]"

definition sample_lib :: lib where
  "sample_lib =
     \<lparr>pbkdf2Sync = (\<lambda>password salt iterations len dig. password @ salt),
      hmac = (\<lambda>secret payload. secret @ template (property payload ''username'')),
      jwt_encode = (\<lambda>payload signature.
         if payload = sample_payload \<and> signature = ''s3cretabc'' then ''good.token''
         else ''other.token''),
      jwt_decode = (\<lambda>token.
         if token = ''good.token'' then Some (sample_payload, ''s3cretabc'')
         else if token = ''forged.token'' then Some (forged_payload, ''s3cretabc'')
         else if token = ''index.token'' then Some (sample_payload, ''mysecretkeyabc'')
         else None),
      string_lt_3 = (\<lambda>s. False),
      marshall_instance = (\<lambda>v. Thrown MarshallError)\<rparr>"

definition sample_user :: json where
  "sample_user =
     JObj [(''pk'', JStr ''user#abc''), (''sk'', JStr ''user''),
           (''data'', JObj [(''username'', JStr ''abc''), (''password'', JStr ''abcdef0011''),
                            (''salt'', JStr ''0011''), (''fullname'', JStr ''Abc Def''),
                            (''email'', JStr ''a@b.com'')]),
           (''created_at'', JStr ''2023-01-01T00:00:00.000Z'')]"

definition empty_world :: world where
  "empty_world =
     \<lparr>table = (\<lambda>k. None), get_item_ok = True, put_item_ok = True,
      parameters = (\<lambda>n. None)(''jwt-secret'' \<mapsto> ''s3cret''), send_message_ok = True,
      date_now = 5999, date_iso = ''2023-01-01T00:00:00.000Z'', random_hex = ''0011'',
      parameterStoreJwtSecretName = ''jwt-secret'', sqsQueueUrl = ''queue'', trace = []\<rparr>"

definition sample_world :: world where
  "sample_world = empty_world\<lparr>table := (\<lambda>k. None)((''user#abc'', ''user'') \<mapsto> sample_user)\<rparr>"

definition sample_registration :: json where
  "sample_registration =
     JObj [(''username'', JStr ''abc''), (''password'', JStr ''abcdef''),
           (''fullname'', JStr ''Abc Def''), (''email'', JStr ''a@b.com'')]"

definition other_registration :: json where
  "other_registration =
     JObj [(''username'', JStr ''abc''), (''password'', JStr ''another password''),
           (''fullname'', JStr ''Someone Else''), (''email'', JStr ''x@y.org'')]"

section \<open>Notions the statements use\<close>




text \<open>
  A field of a registration body is missing, is too short (a value other than
  \<^verbatim>\<open>null\<close> whose length is below 3), or passes both checks of the loop.
\<close>

definition missing :: "json \<Rightarrow> string \<Rightarrow> bool" where
  "missing body field = (property body field = None)"

definition too_short :: "lib \<Rightarrow> json \<Rightarrow> string \<Rightarrow> bool" where
  "too_short l body field =
     (case property body field of
        None \<Rightarrow> False
      | Some v \<Rightarrow> v \<noteq> JNull \<and> js_lt_3 l (property v ''length''))"

definition field_ok :: "lib \<Rightarrow> json \<Rightarrow> string \<Rightarrow> bool" where
  "field_ok l body field =
     (case property body field of
        None \<Rightarrow> False
      | Some v \<Rightarrow> v \<noteq> JNull \<and> \<not> js_lt_3 l (property v ''length''))"

definition fields_ok :: "lib \<Rightarrow> json \<Rightarrow> string list \<Rightarrow> bool" where
  "fields_ok l body names = list_all (field_ok l body) names"

text \<open>The body is not \<^verbatim>\<open>null\<close> and has no own property that hides \<^verbatim>\<open>hasOwnProperty\<close>.\<close>

definition inherits_hasOwnProperty :: "json \<Rightarrow> bool" where
  "inherits_hasOwnProperty body = (body \<noteq> JNull \<and> property body ''hasOwnProperty'' = None)"

section \<open>Facts about the helpers\<close>

lemma res_send_message: "res_send code (message m) = res_json code (Some (message m))"
  by (simp add: res_send_def message_def)

lemma res_json_unauthorized: "res_json 401 (Some (message ''Unauthorized'')) = unauthorized"
  by (simp add: res_json_def unauthorized_def)

lemma js_split_not_Nil: "js_split sep s \<noteq> []"
  by (induction s) (auto split: list.splits)

lemma js_split_no_sep: "sep \<notin> set a \<Longrightarrow> js_split sep a = [a]"
  by (induction a) auto

lemma js_split_prefix: "sep \<notin> set a \<Longrightarrow> js_split sep (a @ sep # rest) = a # js_split sep rest"
  by (induction a) auto

lemma index_split_no_sep: "sep \<notin> set a \<Longrightarrow> index (js_split sep a) (Suc 0) = None"
  by (simp add: js_split_no_sep index_def)

lemma index_split_prefix:
  "sep \<notin> set a \<Longrightarrow>
     index (js_split sep (a @ sep # rest)) (Suc 0) = Some (hd (js_split sep rest))"
  using js_split_not_Nil [of sep rest]
  by (cases "js_split sep rest") (simp_all add: js_split_prefix index_def)

lemma hd_split_token: "sep \<notin> set t \<Longrightarrow> hd (js_split sep t) = t"
  by (simp add: js_split_no_sep)

lemma hd_split_takeWhile: "hd (js_split sep s) = takeWhile (\<lambda>c. c \<noteq> sep) s"
  using js_split_not_Nil [of sep]
  by (induction s) (auto split: list.splits)

lemma index_split_Bearer:
  "index (js_split CHR '' '' (''Bearer '' @ rest)) (Suc 0) = Some (hd (js_split CHR '' '' rest))"
  using index_split_prefix [of "CHR '' ''" "''Bearer''" rest] by simp

lemma authMiddleware_no_header: "authMiddleware l w None = (Respond unauthorized, w)"
  by (simp add: authMiddleware_def res_json_unauthorized)

lemma authMiddleware_no_space:
  "CHR '' '' \<notin> set h \<Longrightarrow> authMiddleware l w (Some h) = (Respond unauthorized, w)"
  by (simp add: authMiddleware_def index_split_no_sep res_send_message res_json_unauthorized)

lemma authMiddleware_empty_token:
  assumes "CHR '' '' \<notin> set scheme" and "hd (js_split CHR '' '' rest) = []"
  shows "authMiddleware l w (Some (scheme @ CHR '' '' # rest)) = (Respond unauthorized, w)"
  using assms
  by (simp add: authMiddleware_def index_split_prefix res_send_message res_json_unauthorized)

lemma authMiddleware_token:
  assumes "CHR '' '' \<notin> set scheme" and "hd (js_split CHR '' '' rest) = token" and "token \<noteq> []"
  shows "authMiddleware l w (Some (scheme @ CHR '' '' # rest)) =
           (case parameters w (parameterStoreJwtSecretName w) of
              None \<Rightarrow> Respond unauthorized
            | Some secretKey \<Rightarrow>
                (case jwt_verify l token secretKey (date_now w div 1000) of
                   Inl e \<Rightarrow> Respond unauthorized
                 | Inr decoded \<Rightarrow> Next decoded),
            w\<lparr>trace := trace w @ [GetParameter (parameterStoreJwtSecretName w)]\<rparr>)"
  using assms
  by (simp add: authMiddleware_def index_split_prefix res_send_message res_json_unauthorized
        getParameterStore_def split: option.splits sum.splits)

lemma authMiddleware_outcome:
  "fst (authMiddleware l w h) = Respond unauthorized \<or> (\<exists>u. fst (authMiddleware l w h) = Next u)"
  by (simp add: authMiddleware_def res_send_message res_json_unauthorized getParameterStore_def
        split: option.splits sum.splits prod.splits)

lemma authMiddleware_secret_unavailable:
  assumes "parameters w (parameterStoreJwtSecretName w) = None"
  shows "fst (authMiddleware l w h) = Respond unauthorized"
  using assms
  by (simp add: authMiddleware_def res_send_message res_json_unauthorized getParameterStore_def
        split: option.splits sum.splits prod.splits)

lemma property_defined_exp:
  "property (JObj (defined ((''username'', u) # (''email'', e) # [(''exp'', Some x)]))) ''exp'' = Some x"
  by (cases u; cases e) simp_all

lemma property_defined_exp_index:
  "property (JObj (defined ((''username'', u) # [(''exp'', Some x)]))) ''exp'' = Some x"
  by (cases u) simp_all

lemma post_login_no_user:
  assumes "body \<noteq> JNull" and "get_item_ok w"
    and "table w (''user#'' @ template (property body ''username''), ''user'') = None"
  shows "fst (post_login l w body) =
           Respond \<lparr>status = 401, content = Json (message ''Invalid username or password'')\<rparr>"
    and "fst (post_login_index l w body) =
           Respond \<lparr>status = 401, content = Json (message ''Invalid username or password'')\<rparr>"
    and "fst (post_login_part001 l w body) =
           Respond \<lparr>status = 401, content = Json (message ''Invalid username or password'')\<rparr>"
  using assms
  by (cases body;
      simp add: post_login_def post_login_index_def post_login_part001_def get_prop_def
        GetItemCommand_def res_json_def Let_def)+

lemma post_login_wrong_password:
  assumes "body \<noteq> JNull" and "get_item_ok w"
    and "table w (''user#'' @ template (property body ''username''), ''user'') = Some userItem"
    and "property userItem ''data'' = Some data" and "data \<noteq> JNull"
    and "hash_password l (property body ''password'') (property data ''salt'') = Inr hashedPassword"
    and "property data ''password'' \<noteq> Some (JStr hashedPassword)"
  shows "fst (post_login l w body) =
           Respond \<lparr>status = 401, content = Text ''Invalid username or password''\<rparr>"
    and "fst (post_login_index l w body) =
           Respond \<lparr>status = 401, content = Text ''Invalid username or password''\<rparr>"
    and "fst (post_login_part001 l w body) =
           Respond \<lparr>status = 401, content = Json (message ''Invalid username or password'')\<rparr>"
proof -
  have u: "get_prop (Some body) ''username'' = Inr (property body ''username'')"
    using assms(1) by (cases body) (simp_all add: get_prop_def)
  have s: "get_prop (Some data) ''salt'' = Inr (property data ''salt'')"
    using assms(5) by (cases data) (simp_all add: get_prop_def)
  have ne: "Some (JStr hashedPassword) \<noteq> property data ''password''"
    using assms(7) by auto
  show "fst (post_login l w body) =
           Respond \<lparr>status = 401, content = Text ''Invalid username or password''\<rparr>"
    using assms(2,3,4,6) ne
    by (simp add: post_login_def u s GetItemCommand_def res_send_def Let_def)
  show "fst (post_login_index l w body) =
           Respond \<lparr>status = 401, content = Text ''Invalid username or password''\<rparr>"
    using assms(2,3,4,6) ne
    by (simp add: post_login_index_def u s GetItemCommand_def res_send_def Let_def)
  show "fst (post_login_part001 l w body) =
           Respond \<lparr>status = 401, content = Json (message ''Invalid username or password'')\<rparr>"
    using assms(2,3,4,6) ne
    by (simp add: post_login_part001_def u s GetItemCommand_def res_send_message res_json_def Let_def)
qed

section \<open>Properties of login\<close>

text \<open>
  C1. On the stored user \<open>abc\<close>, a login with a wrong password and a login with a
  username that has no record are both answered 401, but in \<^verbatim>\<open>unnamed/part_000\<close> and
  in \<^verbatim>\<open>src/index.js\<close> the first body is the plain text of the message (sent with
  \<^verbatim>\<open>res.send\<close> of a string) and the second the JSON object holding it: the two
  responses differ. In \<^verbatim>\<open>unnamed/part_001\<close> both are the JSON object.
\<close>

theorem login_wrong_password_differs_from_unknown_user:
  "fst (post_login sample_lib sample_world
          (JObj [(''username'', JStr ''abc''), (''password'', JStr ''wrong'')])) =
     Respond \<lparr>status = 401, content = Text ''Invalid username or password''\<rparr> \<and>
   fst (post_login sample_lib sample_world
          (JObj [(''username'', JStr ''nobody''), (''password'', JStr ''wrong'')])) =
     Respond \<lparr>status = 401, content = Json (JObj [(''message'', JStr ''Invalid username or password'')])\<rparr> \<and>
   fst (post_login_index sample_lib sample_world
          (JObj [(''username'', JStr ''abc''), (''password'', JStr ''wrong'')])) =
     Respond \<lparr>status = 401, content = Text ''Invalid username or password''\<rparr> \<and>
   fst (post_login_index sample_lib sample_world
          (JObj [(''username'', JStr ''nobody''), (''password'', JStr ''wrong'')])) =
     Respond \<lparr>status = 401, content = Json (JObj [(''message'', JStr ''Invalid username or password'')])\<rparr> \<and>
   fst (post_login_part001 sample_lib sample_world
          (JObj [(''username'', JStr ''abc''), (''password'', JStr ''wrong'')])) =
   fst (post_login_part001 sample_lib sample_world
          (JObj [(''username'', JStr ''nobody''), (''password'', JStr ''wrong'')]))"
  by (simp add: post_login_def post_login_index_def post_login_part001_def get_prop_def
        GetItemCommand_def sample_world_def empty_world_def sample_user_def template_def
        hash_password_def sample_lib_def passwordOptions_def marshall_def res_send_def res_json_def
        message_def Let_def)

text \<open>
  C8. A login answered 200 carries a token signed over a payload whose \<open>exp\<close> is the
  clock in whole seconds plus 43200, whatever the request and the stored record: in
  \<^verbatim>\<open>unnamed/part_000\<close>, in \<^verbatim>\<open>unnamed/part_001\<close> and in \<^verbatim>\<open>src/index.js\<close>.
\<close>

theorem login_token_expires_after_twelve_hours:
  "(post_login l w body = (Respond r, w') \<and> status r = 200 \<longrightarrow>
      (\<exists>payload secret.
         content r = Json (JObj [(''token'', JStr (jwt_sign l payload secret))]) \<and>
         property payload ''exp'' = Some (JNum (date_now w div 1000 + 43200)))) \<and>
   (post_login_part001 l w body = (Respond r, w') \<and> status r = 200 \<longrightarrow>
      (\<exists>payload secret.
         content r = Json (JObj [(''token'', JStr (jwt_sign l payload secret))]) \<and>
         property payload ''exp'' = Some (JNum (date_now w div 1000 + 43200)))) \<and>
   (post_login_index l w body = (Respond r, w') \<and> status r = 200 \<longrightarrow>
      (\<exists>payload secret.
         content r = Json (JObj [(''token'', JStr (jwt_sign l payload secret))]) \<and>
         property payload ''exp'' = Some (JNum (date_now w div 1000 + 43200))))"
proof (intro conjI impI)
  assume "post_login l w body = (Respond r, w') \<and> status r = 200"
  then show "\<exists>payload secret.
         content r = Json (JObj [(''token'', JStr (jwt_sign l payload secret))]) \<and>
         property payload ''exp'' = Some (JNum (date_now w div 1000 + 43200))"
    using property_defined_exp
    by (fastforce simp add: post_login_def GetItemCommand_def getParameterStore_def res_json_def
          res_send_def Let_def split: sum.splits option.splits if_splits json.splits)
next
  assume "post_login_part001 l w body = (Respond r, w') \<and> status r = 200"
  then show "\<exists>payload secret.
         content r = Json (JObj [(''token'', JStr (jwt_sign l payload secret))]) \<and>
         property payload ''exp'' = Some (JNum (date_now w div 1000 + 43200))"
    using property_defined_exp
    by (fastforce simp add: post_login_part001_def GetItemCommand_def getParameterStore_def
          res_json_def res_send_def message_def Let_def
          split: sum.splits option.splits if_splits json.splits)
next
  assume "post_login_index l w body = (Respond r, w') \<and> status r = 200"
  then show "\<exists>payload secret.
         content r = Json (JObj [(''token'', JStr (jwt_sign l payload secret))]) \<and>
         property payload ''exp'' = Some (JNum (date_now w div 1000 + 43200))"
    using property_defined_exp_index
    by (fastforce simp add: post_login_index_def GetItemCommand_def res_json_def
          res_send_def Let_def split: sum.splits option.splits if_splits json.splits)
qed

theorem login_token_expires_after_twelve_hours_witness:
  "post_login sample_lib sample_world sample_registration =
     (Respond \<lparr>status = 200, content = Json (JObj [(''token'', JStr ''good.token'')])\<rparr>,
      sample_world\<lparr>trace := [GetItem ''user#abc'' ''user'', GetParameter ''jwt-secret'']\<rparr>) \<and>
   (\<exists>payload secret.
      JStr ''good.token'' = JStr (jwt_sign sample_lib payload secret) \<and>
      property payload ''exp'' = Some (JNum 43205)) \<and>
   post_login_part001 sample_lib sample_world sample_registration =
     (Respond \<lparr>status = 200, content = Json (JObj [(''token'', JStr ''good.token'')])\<rparr>,
      sample_world\<lparr>trace := [GetItem ''user#abc'' ''user'', GetParameter ''jwt-secret'']\<rparr>) \<and>
   post_login_index sample_lib sample_world sample_registration =
     (Respond \<lparr>status = 200, content = Json (JObj [(''token'', JStr ''other.token'')])\<rparr>,
      sample_world\<lparr>trace := [GetItem ''user#abc'' ''user'']\<rparr>) \<and>
   (\<exists>payload secret.
      JStr ''other.token'' = JStr (jwt_sign sample_lib payload secret) \<and>
      property payload ''exp'' = Some (JNum 43205))"
proof -
  have run: "post_login sample_lib sample_world sample_registration =
     (Respond \<lparr>status = 200, content = Json (JObj [(''token'', JStr ''good.token'')])\<rparr>,
      sample_world\<lparr>trace := [GetItem ''user#abc'' ''user'', GetParameter ''jwt-secret'']\<rparr>)"
    by (simp add: post_login_def get_prop_def sample_registration_def
          GetItemCommand_def sample_world_def empty_world_def sample_user_def template_def
          hash_password_def sample_lib_def passwordOptions_def marshall_def res_send_def res_json_def
          getParameterStore_def jwt_sign_def sample_payload_def Let_def)
  have run1: "post_login_part001 sample_lib sample_world sample_registration =
     (Respond \<lparr>status = 200, content = Json (JObj [(''token'', JStr ''good.token'')])\<rparr>,
      sample_world\<lparr>trace := [GetItem ''user#abc'' ''user'', GetParameter ''jwt-secret'']\<rparr>)"
    by (simp add: post_login_part001_def get_prop_def sample_registration_def
          GetItemCommand_def sample_world_def empty_world_def sample_user_def template_def
          hash_password_def sample_lib_def passwordOptions_def marshall_def res_send_def res_json_def
          getParameterStore_def jwt_sign_def sample_payload_def Let_def)
  have run0: "post_login_index sample_lib sample_world sample_registration =
     (Respond \<lparr>status = 200, content = Json (JObj [(''token'', JStr ''other.token'')])\<rparr>,
      sample_world\<lparr>trace := [GetItem ''user#abc'' ''user'']\<rparr>)"
    by (simp add: post_login_index_def get_prop_def sample_registration_def
          GetItemCommand_def sample_world_def empty_world_def sample_user_def template_def
          hash_password_def sample_lib_def passwordOptions_def marshall_def res_send_def res_json_def
          jwt_sign_def sample_payload_def secretKey_index_def Let_def)
  have clock: "date_now sample_world div 1000 + 43200 = 43205"
    by (simp add: sample_world_def empty_world_def)
  show ?thesis
    using run run1 run0 clock
      login_token_expires_after_twelve_hours [of sample_lib sample_world sample_registration
        "\<lparr>status = 200, content = Json (JObj [(''token'', JStr ''good.token'')])\<rparr>"
        "sample_world\<lparr>trace := [GetItem ''user#abc'' ''user'', GetParameter ''jwt-secret'']\<rparr>"]
      login_token_expires_after_twelve_hours [of sample_lib sample_world sample_registration
        "\<lparr>status = 200, content = Json (JObj [(''token'', JStr ''other.token'')])\<rparr>"
        "sample_world\<lparr>trace := [GetItem ''user#abc'' ''user'']\<rparr>"]
    by simp
qed

section \<open>Properties of the authentication middleware\<close>

text \<open>
  C3. A request to a protected route with no authorization header, or with a header that
  holds no token after the scheme word (the scheme alone, the scheme and a space, or the
  scheme and two spaces before anything else), is answered 401 Unauthorized with the world
  untouched: no parameter was fetched, and the answer is the same for every library and
  clock, so no token was verified. When the parameter store does not give the secret the
  answer is 401 Unauthorized too, the same response as for a token that fails
  verification in a world \<open>w'\<close> where the secret is available.
\<close>

theorem auth_gate_rejects_without_token_or_secret:
  assumes "CHR '' '' \<notin> set scheme"
  shows "authMiddleware l w None = (Respond unauthorized, w) \<and>
         authMiddleware l w (Some scheme) = (Respond unauthorized, w) \<and>
         authMiddleware l w (Some (scheme @ '' '')) = (Respond unauthorized, w) \<and>
         authMiddleware l w (Some (scheme @ ''  '' @ rest)) = (Respond unauthorized, w) \<and>
         (parameters w (parameterStoreJwtSecretName w) = None \<longrightarrow>
            fst (authMiddleware l w h) = Respond unauthorized \<and>
            (CHR '' '' \<notin> set token \<and> token \<noteq> [] \<and>
             parameters w' (parameterStoreJwtSecretName w') = Some secret \<and>
             jwt_verify l token secret (date_now w' div 1000) = Inl e \<longrightarrow>
               fst (authMiddleware l w' (Some (scheme @ '' '' @ token))) =
               fst (authMiddleware l w h)))"
proof -
  have none: "authMiddleware l w None = (Respond unauthorized, w)"
    by (rule authMiddleware_no_header)
  have alone: "authMiddleware l w (Some scheme) = (Respond unauthorized, w)"
    using assms by (rule authMiddleware_no_space)
  have trailing: "authMiddleware l w (Some (scheme @ '' '')) = (Respond unauthorized, w)"
    using authMiddleware_empty_token [OF assms, of "[]" l w] by simp
  have doubled: "authMiddleware l w (Some (scheme @ ''  '' @ rest)) = (Respond unauthorized, w)"
    using authMiddleware_empty_token [OF assms, of "CHR '' '' # rest" l w] by simp
  have bad: "fst (authMiddleware l w' (Some (scheme @ '' '' @ token))) = Respond unauthorized"
    if "CHR '' '' \<notin> set token" "token \<noteq> []"
       "parameters w' (parameterStoreJwtSecretName w') = Some secret"
       "jwt_verify l token secret (date_now w' div 1000) = Inl e"
    using that authMiddleware_token [OF assms, of token token l w']
    by (simp add: hd_split_token)
  show ?thesis
    using none alone trailing doubled bad authMiddleware_secret_unavailable [of w l h]
    by simp
qed

theorem auth_gate_rejects_without_token_or_secret_witness:
  "authMiddleware sample_lib (sample_world\<lparr>parameters := (\<lambda>n. None)\<rparr>) (Some ''Bearer '') =
     (Respond unauthorized, sample_world\<lparr>parameters := (\<lambda>n. None)\<rparr>) \<and>
   fst (authMiddleware sample_lib (sample_world\<lparr>parameters := (\<lambda>n. None)\<rparr>)
          (Some ''Bearer good.token'')) = Respond unauthorized \<and>
   fst (authMiddleware sample_lib sample_world (Some ''Bearer forged.token'')) =
   fst (authMiddleware sample_lib (sample_world\<lparr>parameters := (\<lambda>n. None)\<rparr>)
          (Some ''Bearer good.token''))"
proof -
  have scheme: "CHR '' '' \<notin> set ''Bearer''" by simp
  have unavailable:
    "parameters (sample_world\<lparr>parameters := (\<lambda>n. None)\<rparr>)
       (parameterStoreJwtSecretName (sample_world\<lparr>parameters := (\<lambda>n. None)\<rparr>)) = None"
    by simp
  have token: "CHR '' '' \<notin> set ''forged.token'' \<and> ''forged.token'' \<noteq> []" by simp
  have secret: "parameters sample_world (parameterStoreJwtSecretName sample_world) = Some ''s3cret''"
    by (simp add: sample_world_def empty_world_def)
  have bad: "jwt_verify sample_lib ''forged.token'' ''s3cret'' (date_now sample_world div 1000) =
               Inl InvalidSignature"
    by (simp add: jwt_verify_def sample_lib_def forged_payload_def template_def)
  show ?thesis
    using scheme unavailable token secret bad
      auth_gate_rejects_without_token_or_secret [OF scheme,
        of sample_lib "sample_world\<lparr>parameters := (\<lambda>n. None)\<rparr>" "[]"
           "Some ''Bearer good.token''" "''forged.token''" sample_world "''s3cret''"
           InvalidSignature]
    by simp
qed

text \<open>
  C10. The scheme word is not checked: whatever word without a space stands before the
  first space, the middleware does what it does for \<open>Bearer\<close>, in the variants with the
  parameter store and in \<^verbatim>\<open>src/index.js\<close> alike; the token it takes is what stands
  between the first space and the next.
\<close>

theorem auth_gate_ignores_scheme:
  assumes "CHR '' '' \<notin> set scheme"
  shows "authMiddleware l w (Some (scheme @ '' '' @ rest)) =
           authMiddleware l w (Some (''Bearer '' @ rest)) \<and>
         authMiddleware_index l w (Some (scheme @ '' '' @ rest)) =
           authMiddleware_index l w (Some (''Bearer '' @ rest)) \<and>
         index (js_split CHR '' '' (scheme @ '' '' @ rest)) 1 =
           Some (takeWhile (\<lambda>c. c \<noteq> CHR '' '') rest)"
proof -
  have i: "index (js_split CHR '' '' (scheme @ '' '' @ rest)) (Suc 0) =
             Some (hd (js_split CHR '' '' rest))"
    using index_split_prefix [OF assms, of rest] by simp
  have a: "authMiddleware l w (Some (scheme @ '' '' @ rest)) =
           authMiddleware l w (Some (''Bearer '' @ rest))"
    unfolding authMiddleware_def using i index_split_Bearer [of rest] by simp
  have b: "authMiddleware_index l w (Some (scheme @ '' '' @ rest)) =
           authMiddleware_index l w (Some (''Bearer '' @ rest))"
    unfolding authMiddleware_index_def using i index_split_Bearer [of rest] by simp
  show ?thesis using a b i by (simp add: hd_split_takeWhile)
qed

theorem auth_gate_ignores_scheme_witness:
  "authMiddleware sample_lib sample_world (Some ''Basic good.token'') =
     authMiddleware sample_lib sample_world (Some ''Bearer good.token'') \<and>
   fst (authMiddleware sample_lib sample_world (Some ''Bearer good.token'')) = Next sample_payload"
proof -
  have scheme: "CHR '' '' \<notin> set ''Basic''" by simp
  have accepted:
    "fst (authMiddleware sample_lib sample_world (Some ''Bearer good.token'')) = Next sample_payload"
    using authMiddleware_token [of "''Bearer''" "''good.token''" "''good.token''" sample_lib sample_world]
    by (simp add: sample_world_def empty_world_def jwt_verify_def sample_lib_def
          sample_payload_def template_def)
  show ?thesis
    using accepted auth_gate_ignores_scheme [OF scheme, of sample_lib sample_world "''good.token''"]
    by simp
qed

section \<open>Properties of the Token Service\<close>

text \<open>
  C2. A token issued for a payload under a secret, verified under the same secret at a
  time strictly before the payload's \<open>exp\<close>, is accepted and gives back the payload
  whole: the username and the other claims are the ones signed. The serialisation is
  assumed to decode to what was encoded.
\<close>

theorem issue_then_verify_returns_payload:
  assumes "jwt_decode l (jwt_encode l payload (hmac l secret payload)) =
             Some (payload, hmac l secret payload)"
    and "property payload ''exp'' = Some (JNum expiresAt)"
    and "now < expiresAt"
  shows "jwt_verify l (jwt_sign l payload secret) secret now = Inr payload"
  using assms by (simp add: jwt_verify_def jwt_sign_def)

theorem issue_then_verify_returns_payload_witness:
  "jwt_sign sample_lib sample_payload ''s3cret'' = ''good.token'' \<and>
   jwt_verify sample_lib ''good.token'' ''s3cret'' 5 = Inr sample_payload \<and>
   property sample_payload ''username'' = Some (JStr ''abc'') \<and>
   property sample_payload ''email'' = Some (JStr ''a@b.com'')"
proof -
  have sign: "jwt_sign sample_lib sample_payload ''s3cret'' = ''good.token''"
    by (simp add: jwt_sign_def sample_lib_def sample_payload_def template_def)
  have decode: "jwt_decode sample_lib
                  (jwt_encode sample_lib sample_payload (hmac sample_lib ''s3cret'' sample_payload)) =
                Some (sample_payload, hmac sample_lib ''s3cret'' sample_payload)"
    by (simp add: sample_lib_def sample_payload_def template_def)
  have expiry: "property sample_payload ''exp'' = Some (JNum 43205)"
    by (simp add: sample_payload_def)
  have before: "(5::int) < 43205" by simp
  show ?thesis
    using sign issue_then_verify_returns_payload [OF decode expiry before]
    by (simp add: sample_payload_def)
qed

text \<open>
  The same round trip through the two handlers: the token of a login answered 200, sent
  back as a bearer token while the secret is the same and the clock has not passed the
  twelve hours, passes \<^verbatim>\<open>authMiddleware\<close> of \<^verbatim>\<open>unnamed/part_000\<close>, and the user
  it sets has the username of the login. The token is taken to hold no space and to
  decode to what it encodes.
\<close>

lemma property_defined_username:
  "property (JObj (defined ((''username'', u) # (''email'', e) # [(''exp'', Some x)]))) ''username'' = u"
  by (cases u; cases e) simp_all

lemma post_login_issues:
  assumes "post_login l w body = (Respond r, w1)" and "status r = 200"
  shows "\<exists>email secret.
           parameters w (parameterStoreJwtSecretName w) = Some secret \<and>
           content r = Json (JObj [(''token'', JStr (jwt_sign l
             (JObj (defined [(''username'', property body ''username''), (''email'', email),
                             (''exp'', Some (JNum (date_now w div 1000 + 43200)))])) secret))])"
proof (cases "body = JNull")
  case True
  with assms show ?thesis by (simp add: post_login_def get_prop_def)
next
  case False
  then have "get_prop (Some body) ''username'' = Inr (property body ''username'')"
    by (cases body) (simp_all add: get_prop_def)
  with assms show ?thesis
    by (fastforce simp add: post_login_def GetItemCommand_def
          getParameterStore_def res_json_def res_send_def Let_def
          split: sum.splits option.splits if_splits)
qed

lemma login_token_passes_authMiddleware:
  assumes "post_login l w body = (Respond r, w1)" and "status r = 200"
    and "content r = Json (JObj [(''token'', JStr token)])"
    and "CHR '' '' \<notin> set token" and "token \<noteq> []"
    and "\<forall>p s. jwt_encode l p s = token \<longrightarrow> jwt_decode l token = Some (p, s)"
    and "parameters w' (parameterStoreJwtSecretName w') = parameters w (parameterStoreJwtSecretName w)"
    and "date_now w' div 1000 \<le> date_now w div 1000 + 43200"
  shows "\<exists>user. fst (authMiddleware l w' (Some (''Bearer '' @ token))) = Next user \<and>
                property user ''username'' = property body ''username''"
proof -
  from post_login_issues [OF assms(1,2)] assms(3) obtain email secret where
    secret: "parameters w (parameterStoreJwtSecretName w) = Some secret" and
    token: "token = jwt_sign l
             (JObj (defined [(''username'', property body ''username''), (''email'', email),
                             (''exp'', Some (JNum (date_now w div 1000 + 43200)))])) secret"
    by auto
  let ?payload = "JObj (defined [(''username'', property body ''username''), (''email'', email),
                             (''exp'', Some (JNum (date_now w div 1000 + 43200)))])"
  have decode: "jwt_decode l token = Some (?payload, hmac l secret ?payload)"
    using assms(6) token by (simp add: jwt_sign_def)
  have verify: "jwt_verify l token secret (date_now w' div 1000) = Inr ?payload"
    using decode assms(8) property_defined_exp [of "property body ''username''" email]
    by (simp add: jwt_verify_def)
  have scheme: "CHR '' '' \<notin> set ''Bearer''" by simp
  have "fst (authMiddleware l w' (Some (''Bearer '' @ token))) = Next ?payload"
    using authMiddleware_token [OF scheme, of token token l w'] assms(4,5,7) secret verify
    by (simp add: hd_split_token)
  then show ?thesis
    using property_defined_username [of "property body ''username''" email] by auto
qed

text \<open>
  C6. A token is rejected, and the middleware answers 401 Unauthorized, in each of three
  cases: its signature was made for another payload (the payload was altered after
  signing), its signature was made under another secret, or the clock is past its
  \<open>exp\<close>. In the first two cases the two signatures are taken to differ, as those of a
  message authentication code do.
\<close>

theorem verify_rejects_tampered_foreign_and_expired:
  assumes "CHR '' '' \<notin> set token" and "token \<noteq> []"
    and "parameters w (parameterStoreJwtSecretName w) = Some secret"
    and "jwt_decode l token = Some (payload, signature)"
    and "(signature = hmac l secret signed \<and> hmac l secret payload \<noteq> hmac l secret signed) \<or>
         (signature = hmac l issuer payload \<and> hmac l secret payload \<noteq> hmac l issuer payload) \<or>
         (property payload ''exp'' = Some (JNum expiresAt) \<and> expiresAt < date_now w div 1000)"
  shows "(\<exists>e. jwt_verify l token secret (date_now w div 1000) = Inl e) \<and>
         fst (authMiddleware l w (Some (''Bearer '' @ token))) = Respond unauthorized"
proof -
  have rejected: "\<exists>e. jwt_verify l token secret (date_now w div 1000) = Inl e"
    using assms(4,5) by (auto simp add: jwt_verify_def)
  have scheme: "CHR '' '' \<notin> set ''Bearer''" by simp
  have "fst (authMiddleware l w (Some (''Bearer '' @ token))) = Respond unauthorized"
    using rejected assms(3) authMiddleware_token [OF scheme, of token token l w] assms(1,2)
    by (auto simp add: hd_split_token)
  then show ?thesis using rejected by simp
qed

theorem verify_rejects_tampered_foreign_and_expired_witness:
  "fst (authMiddleware sample_lib sample_world (Some ''Bearer forged.token'')) =
     Respond unauthorized \<and>
   fst (authMiddleware sample_lib
          (sample_world\<lparr>parameters := (\<lambda>n. None)(''jwt-secret'' \<mapsto> ''rotated'')\<rparr>)
          (Some ''Bearer good.token'')) = Respond unauthorized \<and>
   fst (authMiddleware sample_lib (sample_world\<lparr>date_now := 43206000\<rparr>)
          (Some ''Bearer good.token'')) = Respond unauthorized \<and>
   fst (authMiddleware sample_lib (sample_world\<lparr>date_now := 43204999\<rparr>)
          (Some ''Bearer good.token'')) = Next sample_payload"
proof -
  have forged: "CHR '' '' \<notin> set ''forged.token''" "''forged.token'' \<noteq> []"
    and good: "CHR '' '' \<notin> set ''good.token''" "''good.token'' \<noteq> []"
    by simp_all
  have secret: "parameters sample_world (parameterStoreJwtSecretName sample_world) = Some ''s3cret''"
    by (simp add: sample_world_def empty_world_def)
  have decode_forged: "jwt_decode sample_lib ''forged.token'' = Some (forged_payload, ''s3cretabc'')"
    and decode_good: "jwt_decode sample_lib ''good.token'' = Some (sample_payload, ''s3cretabc'')"
    by (simp_all add: sample_lib_def)
  have tampered:
    "(''s3cretabc'' = hmac sample_lib ''s3cret'' sample_payload \<and>
      hmac sample_lib ''s3cret'' forged_payload \<noteq> hmac sample_lib ''s3cret'' sample_payload) \<or>
     (''s3cretabc'' = hmac sample_lib ''s3cret'' forged_payload \<and>
      hmac sample_lib ''s3cret'' forged_payload \<noteq> hmac sample_lib ''s3cret'' forged_payload) \<or>
     (property forged_payload ''exp'' = Some (JNum 0) \<and> 0 < date_now sample_world div 1000)"
    by (simp add: sample_lib_def sample_payload_def forged_payload_def template_def)
  have rotated:
    "parameters (sample_world\<lparr>parameters := (\<lambda>n. None)(''jwt-secret'' \<mapsto> ''rotated'')\<rparr>)
       (parameterStoreJwtSecretName
          (sample_world\<lparr>parameters := (\<lambda>n. None)(''jwt-secret'' \<mapsto> ''rotated'')\<rparr>)) =
     Some ''rotated''"
    by (simp add: sample_world_def empty_world_def)
  have foreign:
    "(''s3cretabc'' = hmac sample_lib ''rotated'' sample_payload \<and>
      hmac sample_lib ''rotated'' sample_payload \<noteq> hmac sample_lib ''rotated'' sample_payload) \<or>
     (''s3cretabc'' = hmac sample_lib ''s3cret'' sample_payload \<and>
      hmac sample_lib ''rotated'' sample_payload \<noteq> hmac sample_lib ''s3cret'' sample_payload) \<or>
     (property sample_payload ''exp'' = Some (JNum 0) \<and>
      0 < date_now (sample_world\<lparr>parameters := (\<lambda>n. None)(''jwt-secret'' \<mapsto> ''rotated'')\<rparr>)
            div 1000)"
    by (simp add: sample_lib_def sample_payload_def template_def)
  have late_secret:
    "parameters (sample_world\<lparr>date_now := 43206000\<rparr>)
       (parameterStoreJwtSecretName (sample_world\<lparr>date_now := 43206000\<rparr>)) = Some ''s3cret''"
    by (simp add: sample_world_def empty_world_def)
  have expired:
    "(''s3cretabc'' = hmac sample_lib ''s3cret'' sample_payload \<and>
      hmac sample_lib ''s3cret'' sample_payload \<noteq> hmac sample_lib ''s3cret'' sample_payload) \<or>
     (''s3cretabc'' = hmac sample_lib ''s3cret'' sample_payload \<and>
      hmac sample_lib ''s3cret'' sample_payload \<noteq> hmac sample_lib ''s3cret'' sample_payload) \<or>
     (property sample_payload ''exp'' = Some (JNum 43205) \<and>
      43205 < date_now (sample_world\<lparr>date_now := 43206000\<rparr>) div 1000)"
    by (simp add: sample_payload_def)
  have in_time:
    "fst (authMiddleware sample_lib (sample_world\<lparr>date_now := 43204999\<rparr>)
            (Some ''Bearer good.token'')) = Next sample_payload"
    using authMiddleware_token [of "''Bearer''" "''good.token''" "''good.token''" sample_lib
            "sample_world\<lparr>date_now := 43204999\<rparr>"]
    by (simp add: sample_world_def empty_world_def jwt_verify_def sample_lib_def
          sample_payload_def template_def)
  show ?thesis
    using in_time
      verify_rejects_tampered_foreign_and_expired [OF forged secret decode_forged tampered]
      verify_rejects_tampered_foreign_and_expired [OF good rotated decode_good foreign]
      verify_rejects_tampered_foreign_and_expired [OF good late_secret decode_good expired]
    by simp
qed

section \<open>Properties of the todo handlers\<close>

lemma get_prop_username: "user \<noteq> JNull \<Longrightarrow> get_prop (Some user) name = Inr (property user name)"
  by (cases user) (simp_all add: get_prop_def)











lemma route_get_todos_id_authenticated:
  "authMiddleware l w a = (Next user, w1) \<Longrightarrow>
     route_get_todos_id l w a i = get_todos_id w1 i user"
  by (simp add: route_get_todos_id_def)




lemma authMiddleware_world:
  "authMiddleware l w a = (out, w1) \<Longrightarrow> table w1 = table w \<and> put_item_ok w1 = put_item_ok w"
  by (auto simp add: authMiddleware_def getParameterStore_def
        split: option.splits sum.splits if_splits prod.splits)





section \<open>Properties of registration\<close>

lemma hasOwnProperty_present:
  "hasOwnProperty body field = Inr True \<Longrightarrow> property body field \<noteq> None"
  by (cases body) (auto split: if_splits)

lemma hasOwnProperty_inherited:
  "inherits_hasOwnProperty body \<Longrightarrow> hasOwnProperty body field = Inr (property body field \<noteq> None)"
  by (cases body) (auto simp add: inherits_hasOwnProperty_def)

lemma get_prop_length:
  "get_prop (Some v) ''length'' = (if v = JNull then Inl TypeError else Inr (property v ''length''))"
  by (cases v) (simp_all add: get_prop_def)

lemma validate_passes_fields_ok: "validate l body names = Inr None \<Longrightarrow> fields_ok l body names"
proof (induction names)
  case Nil
  then show ?case by (simp add: fields_ok_def)
next
  case (Cons field rest)
  from Cons.prems obtain present where p: "hasOwnProperty body field = Inr present"
    by (cases "hasOwnProperty body field") auto
  with Cons.prems have present: "present" by (auto split: if_splits)
  with p obtain v where v: "property body field = Some v"
    using hasOwnProperty_present [of body field] by auto
  from Cons.prems p present v have "v \<noteq> JNull"
    by (auto simp add: get_prop_length split: if_splits)
  with Cons.prems p present v
  have "\<not> js_lt_3 l (property v ''length'')" and "validate l body rest = Inr None"
    by (auto simp add: get_prop_length split: if_splits)
  with Cons.IH v \<open>v \<noteq> JNull\<close> show ?case
    by (simp add: fields_ok_def field_ok_def)
qed

lemma bad_field_not_ok: "missing body field \<or> too_short l body field \<Longrightarrow> \<not> field_ok l body field"
  by (auto simp add: missing_def too_short_def field_ok_def split: option.splits)

lemma validate_first_bad_field:
  assumes "inherits_hasOwnProperty body" and "fields_ok l body pre"
    and "missing body field \<or> too_short l body field"
  shows "validate l body (pre @ field # post) =
           Inr (Some (res_json 400 (Some (message
             (if missing body field then ''Missing '' @ quoted field @ '' attribute''
              else ''Value of '' @ quoted field @ '' is too short'')))))"
  using assms(2)
proof (induction pre)
  case Nil
  show ?case
  proof (cases "missing body field")
    case True
    then show ?thesis
      using assms(1) by (simp add: hasOwnProperty_inherited missing_def)
  next
    case False
    with assms(3) obtain v where "property body field = Some v" "v \<noteq> JNull"
      "js_lt_3 l (property v ''length'')"
      by (auto simp add: too_short_def split: option.splits)
    with False show ?thesis
      using assms(1) by (simp add: hasOwnProperty_inherited get_prop_length)
  qed
next
  case (Cons g pre)
  then obtain v where "property body g = Some v" "v \<noteq> JNull" "\<not> js_lt_3 l (property v ''length'')"
    and rest: "fields_ok l body pre"
    by (auto simp add: fields_ok_def field_ok_def split: option.splits)
  then show ?case
    using assms(1) Cons.IH [OF rest]
    by (simp add: hasOwnProperty_inherited get_prop_length)
qed

text \<open>
  A field whose value is \<^verbatim>\<open>null\<close> makes the length check throw: the handler of
  \<^verbatim>\<open>unnamed/part_000\<close> sends no response, though \<open>password\<close> is missing as well.
\<close>

lemma register_null_field_throws:
  "post_register l w (JObj [(''username'', JNull)]) = (Rejected TypeError, w)"
  by (simp add: post_register_def required_def get_prop_def)

text \<open>
  C4, amended. In \<^verbatim>\<open>unnamed/part_000\<close>, a registration whose body lacks a required
  field, or holds one whose value (not \<^verbatim>\<open>null\<close>) has a length below 3, leaves the
  world as it was: no service is called. When the checks can run (the body has no own
  property hiding \<^verbatim>\<open>hasOwnProperty\<close>) and the fields before that one pass them, the
  answer is 400 with the message naming that field.
\<close>

theorem register_validates_before_any_call:
  assumes "field \<in> set required" and "missing body field \<or> too_short l body field"
  shows "snd (post_register l w body) = w \<and>
         (\<forall>pre post.
            required = pre @ field # post \<and> inherits_hasOwnProperty body \<and> fields_ok l body pre \<longrightarrow>
            fst (post_register l w body) =
              Respond \<lparr>status = 400, content = Json (message
                (if missing body field then ''Missing '' @ quoted field @ '' attribute''
                 else ''Value of '' @ quoted field @ '' is too short''))\<rparr>)"
proof -
  have "\<not> fields_ok l body required"
    using assms bad_field_not_ok [of body field l]
    by (auto simp add: fields_ok_def list_all_iff)
  then have stopped: "validate l body required \<noteq> Inr None"
    using validate_passes_fields_ok by blast
  then have untouched: "snd (post_register l w body) = w"
    by (auto simp add: post_register_def split: sum.splits option.splits)
  have named: "fst (post_register l w body) =
              Respond \<lparr>status = 400, content = Json (message
                (if missing body field then ''Missing '' @ quoted field @ '' attribute''
                 else ''Value of '' @ quoted field @ '' is too short''))\<rparr>"
    if "required = pre @ field # post" "inherits_hasOwnProperty body" "fields_ok l body pre"
    for pre post
    using that validate_first_bad_field [OF that(2,3) assms(2), of post]
    by (simp add: post_register_def res_json_def)
  show ?thesis using untouched named by blast
qed

theorem register_validates_before_any_call_witness:
  "post_register sample_lib empty_world
     (JObj [(''username'', JStr ''abc''), (''password'', JStr ''pw'')]) =
     (Respond \<lparr>status = 400, content = Json (message (''Value of '' @ quoted ''password'' @ '' is too short''))\<rparr>,
      empty_world) \<and>
   post_register sample_lib empty_world
     (JObj [(''username'', JStr ''abc''), (''password'', JStr ''abcdef'')]) =
     (Respond \<lparr>status = 400, content = Json (message (''Missing '' @ quoted ''fullname'' @ '' attribute''))\<rparr>,
      empty_world)"
proof -
  have password: "''password'' \<in> set required" and fullname: "''fullname'' \<in> set required"
    by (simp_all add: required_def)
  have short: "missing (JObj [(''username'', JStr ''abc''), (''password'', JStr ''pw'')]) ''password'' \<or>
               too_short sample_lib (JObj [(''username'', JStr ''abc''), (''password'', JStr ''pw'')]) ''password''"
    by (simp add: too_short_def js_lt_3_def)
  have absent: "missing (JObj [(''username'', JStr ''abc''), (''password'', JStr ''abcdef'')]) ''fullname'' \<or>
               too_short sample_lib (JObj [(''username'', JStr ''abc''), (''password'', JStr ''abcdef'')]) ''fullname''"
    by (simp add: missing_def)
  have split1: "required = [''username''] @ ''password'' # [''fullname'', ''email'']"
    and split2: "required = [''username'', ''password''] @ ''fullname'' # [''email'']"
    by (simp_all add: required_def)
  have checks:
    "inherits_hasOwnProperty (JObj [(''username'', JStr ''abc''), (''password'', JStr ''pw'')]) \<and>
     fields_ok sample_lib (JObj [(''username'', JStr ''abc''), (''password'', JStr ''pw'')]) [''username''] \<and>
     inherits_hasOwnProperty (JObj [(''username'', JStr ''abc''), (''password'', JStr ''abcdef'')]) \<and>
     fields_ok sample_lib (JObj [(''username'', JStr ''abc''), (''password'', JStr ''abcdef'')])
       [''username'', ''password'']"
    by (simp add: inherits_hasOwnProperty_def fields_ok_def field_ok_def js_lt_3_def)
  have not_missing:
    "\<not> missing (JObj [(''username'', JStr ''abc''), (''password'', JStr ''pw'')]) ''password''"
    by (simp add: missing_def)
  note short_case = register_validates_before_any_call [OF password short, of empty_world]
  note absent_case = register_validates_before_any_call [OF fullname absent, of empty_world]
  have first: "fst (post_register sample_lib empty_world
     (JObj [(''username'', JStr ''abc''), (''password'', JStr ''pw'')])) =
     Respond \<lparr>status = 400, content = Json (message (''Value of '' @ quoted ''password'' @ '' is too short''))\<rparr>"
    using short_case [THEN conjunct2, rule_format, of "[''username'']" "[''fullname'', ''email'']"]
      checks not_missing
    by (simp add: required_def)
  have second: "fst (post_register sample_lib empty_world
     (JObj [(''username'', JStr ''abc''), (''password'', JStr ''abcdef'')])) =
     Respond \<lparr>status = 400, content = Json (message (''Missing '' @ quoted ''fullname'' @ '' attribute''))\<rparr>"
    using absent_case [THEN conjunct2, rule_format, of "[''username'', ''password'']" "[''email'']"]
      checks
    by (simp add: required_def missing_def)
  show ?thesis
    using first second short_case [THEN conjunct1] absent_case [THEN conjunct1]
    by (simp add: prod_eq_iff)
qed

text \<open>
  C4 as stated fails on \<^verbatim>\<open>src/index.js\<close>, whose handler has no validation: a body
  with a two-character password and neither \<open>fullname\<close> nor \<open>email\<close> is answered 201
  after a read and a write of the table.
\<close>

theorem register_index_accepts_missing_and_short_fields:
  "missing (JObj [(''username'', JStr ''abc''), (''password'', JStr ''pw'')]) ''fullname'' \<and>
   too_short sample_lib (JObj [(''username'', JStr ''abc''), (''password'', JStr ''pw'')]) ''password'' \<and>
   fst (post_register_index sample_lib empty_world
          (JObj [(''username'', JStr ''abc''), (''password'', JStr ''pw'')])) =
     Respond \<lparr>status = 201, content = Json (message ''User registered successfully'')\<rparr> \<and>
   trace (snd (post_register_index sample_lib empty_world
                 (JObj [(''username'', JStr ''abc''), (''password'', JStr ''pw'')]))) =
     [GetItem ''user#abc'' ''user'',
      PutItem (JObj [(''pk'', JStr ''user#abc''), (''sk'', JStr ''user''),
                     (''data'', JObj [(''username'', JStr ''abc''), (''password'', JStr ''pw0011''),
                                      (''salt'', JStr ''0011'')]),
                     (''created_at'', JStr ''2023-01-01T00:00:00.000Z'')])]"
  by (simp add: missing_def too_short_def js_lt_3_def post_register_index_def get_prop_def
        GetItemCommand_def PutItemCommand_def empty_world_def template_def hash_password_def
        sample_lib_def passwordOptions_def marshall_def res_json_def Let_def)

lemma validate_response_400: "validate l body names = Inr (Some r) \<Longrightarrow> status r = 400"
  by (induction names) (auto simp add: res_json_def split: sum.splits if_splits)

lemma post_register_201_validated:
  assumes "post_register l w body = (Respond r, w1)" and "status r = 201"
  shows "validate l body required = Inr None"
proof (cases "validate l body required")
  case (Inl e)
  with assms show ?thesis by (simp add: post_register_def)
next
  case (Inr found)
  show ?thesis
  proof (cases found)
    case None
    with Inr show ?thesis by simp
  next
    case (Some r')
    with Inr assms have "r' = r" by (simp add: post_register_def)
    with Inr Some assms(2) validate_response_400 [of l body required r] show ?thesis by simp
  qed
qed

lemma post_register_stores:
  assumes "post_register l w body = (Respond r, w1)" and "status r = 201"
  shows "table w1 (''user#'' @ template (property body ''username''), ''user'') \<noteq> None"
  using assms post_register_201_validated [OF assms]
  by (auto simp add: post_register_def Let_def GetItemCommand_def PutItemCommand_def
        sendWelcomeEmail_def res_json_def
        split: sum.splits option.splits if_splits marshalled.splits)

lemma post_register_index_stores:
  assumes "post_register_index l w body = (Respond r, w1)" and "status r = 201"
  shows "table w1 (''user#'' @ template (property body ''username''), ''user'') \<noteq> None"
proof (cases "body = JNull")
  case True
  with assms show ?thesis by (simp add: post_register_index_def get_prop_def)
next
  case False
  with assms show ?thesis
    by (auto simp add: post_register_index_def Let_def GetItemCommand_def PutItemCommand_def
          get_prop_username res_json_def
          split: sum.splits option.splits if_splits marshalled.splits)
qed

lemma post_register_taken:
  assumes "validate l body required = Inr None" and "get_item_ok w"
    and "table w (''user#'' @ template (property body ''username''), ''user'') \<noteq> None"
  shows "post_register l w body =
           (Respond \<lparr>status = 400, content = Json (message ''Username already taken'')\<rparr>,
            w\<lparr>trace := trace w @ [GetItem (''user#'' @ template (property body ''username'')) ''user'']\<rparr>)"
  using assms
  by (auto simp add: post_register_def Let_def GetItemCommand_def res_json_def)

lemma post_register_index_taken:
  assumes "body \<noteq> JNull" and "get_item_ok w"
    and "table w (''user#'' @ template (property body ''username''), ''user'') \<noteq> None"
  shows "post_register_index l w body =
           (Respond \<lparr>status = 400, content = Json (message ''Username already taken'')\<rparr>,
            w\<lparr>trace := trace w @ [GetItem (''user#'' @ template (property body ''username'')) ''user'']\<rparr>)"
  using assms
  by (auto simp add: post_register_index_def get_prop_username Let_def GetItemCommand_def
        res_json_def)

text \<open>
  C5, amended. After a registration answered 201, a registration of the same username
  whose body passes the validation loop, run on the table the first one left while the
  table answers reads, is answered 400 \<open>Username already taken\<close> whatever its other
  fields hold; the world it leaves differs by the one read in the trace, so nothing is
  written and the stored record is unchanged. In \<^verbatim>\<open>src/index.js\<close>, which has no
  validation, the same holds for every body but \<^verbatim>\<open>null\<close>.
\<close>

theorem register_same_username_is_taken:
  "(post_register l w body1 = (Respond r1, w1) \<and> status r1 = 201 \<and>
    property body2 ''username'' = property body1 ''username'' \<and>
    validate l body2 required = Inr None \<and> table w2 = table w1 \<and> get_item_ok w2 \<longrightarrow>
      post_register l w2 body2 =
        (Respond \<lparr>status = 400, content = Json (message ''Username already taken'')\<rparr>,
         w2\<lparr>trace := trace w2 @
            [GetItem (''user#'' @ template (property body2 ''username'')) ''user'']\<rparr>)) \<and>
   (post_register_index l w body1 = (Respond r1, w1) \<and> status r1 = 201 \<and>
    property body2 ''username'' = property body1 ''username'' \<and>
    body2 \<noteq> JNull \<and> table w2 = table w1 \<and> get_item_ok w2 \<longrightarrow>
      post_register_index l w2 body2 =
        (Respond \<lparr>status = 400, content = Json (message ''Username already taken'')\<rparr>,
         w2\<lparr>trace := trace w2 @
            [GetItem (''user#'' @ template (property body2 ''username'')) ''user'']\<rparr>))"
proof (intro conjI impI)
  assume a: "post_register l w body1 = (Respond r1, w1) \<and> status r1 = 201 \<and>
    property body2 ''username'' = property body1 ''username'' \<and>
    validate l body2 required = Inr None \<and> table w2 = table w1 \<and> get_item_ok w2"
  then have "table w2 (''user#'' @ template (property body2 ''username''), ''user'') \<noteq> None"
    using post_register_stores [of l w body1 r1 w1] by simp
  with a show "post_register l w2 body2 =
        (Respond \<lparr>status = 400, content = Json (message ''Username already taken'')\<rparr>,
         w2\<lparr>trace := trace w2 @
            [GetItem (''user#'' @ template (property body2 ''username'')) ''user'']\<rparr>)"
    using post_register_taken [of l body2 w2] by simp
next
  assume a: "post_register_index l w body1 = (Respond r1, w1) \<and> status r1 = 201 \<and>
    property body2 ''username'' = property body1 ''username'' \<and>
    body2 \<noteq> JNull \<and> table w2 = table w1 \<and> get_item_ok w2"
  then have "table w2 (''user#'' @ template (property body2 ''username''), ''user'') \<noteq> None"
    using post_register_index_stores [of l w body1 r1 w1] by simp
  with a show "post_register_index l w2 body2 =
        (Respond \<lparr>status = 400, content = Json (message ''Username already taken'')\<rparr>,
         w2\<lparr>trace := trace w2 @
            [GetItem (''user#'' @ template (property body2 ''username'')) ''user'']\<rparr>)"
    using post_register_index_taken [of body2 w2 l] by simp
qed

theorem register_same_username_is_taken_witness:
  "fst (post_register sample_lib empty_world sample_registration) =
     Respond \<lparr>status = 201, content = Json (message ''User registered successfully'')\<rparr> \<and>
   fst (post_register sample_lib
          (snd (post_register sample_lib empty_world sample_registration)) other_registration) =
     Respond \<lparr>status = 400, content = Json (message ''Username already taken'')\<rparr> \<and>
   table (snd (post_register sample_lib
                 (snd (post_register sample_lib empty_world sample_registration))
                 other_registration)) =
     table (snd (post_register sample_lib empty_world sample_registration)) \<and>
   fst (post_register_index sample_lib
          (snd (post_register_index sample_lib empty_world sample_registration)) JNull) =
     Rejected TypeError \<and>
   fst (post_register_index sample_lib
          (snd (post_register_index sample_lib empty_world sample_registration))
          (JObj [(''username'', JStr ''abc'')])) =
     Respond \<lparr>status = 400, content = Json (message ''Username already taken'')\<rparr>"
proof -
  have first: "post_register sample_lib empty_world sample_registration =
      (Respond \<lparr>status = 201, content = Json (message ''User registered successfully'')\<rparr>,
       snd (post_register sample_lib empty_world sample_registration))"
    by (simp add: prod_eq_iff post_register_def required_def sample_registration_def
          get_prop_def js_lt_3_def GetItemCommand_def PutItemCommand_def sendWelcomeEmail_def
          empty_world_def template_def hash_password_def sample_lib_def passwordOptions_def marshall_def
          res_json_def Let_def)
  have first_index: "post_register_index sample_lib empty_world sample_registration =
      (Respond \<lparr>status = 201, content = Json (message ''User registered successfully'')\<rparr>,
       snd (post_register_index sample_lib empty_world sample_registration))"
    by (simp add: prod_eq_iff post_register_index_def sample_registration_def
          get_prop_def GetItemCommand_def PutItemCommand_def
          empty_world_def template_def hash_password_def sample_lib_def passwordOptions_def marshall_def
          res_json_def Let_def)
  have same: "property other_registration ''username'' = property sample_registration ''username''"
    and same_index:
      "property (JObj [(''username'', JStr ''abc'')]) ''username'' =
       property sample_registration ''username''"
    by (simp_all add: other_registration_def sample_registration_def)
  have valid: "validate sample_lib other_registration required = Inr None"
    by (simp add: required_def other_registration_def get_prop_def js_lt_3_def)
  have reads: "get_item_ok (snd (post_register sample_lib empty_world sample_registration))"
    by (simp add: post_register_def required_def sample_registration_def
          get_prop_def js_lt_3_def GetItemCommand_def PutItemCommand_def sendWelcomeEmail_def
          empty_world_def template_def hash_password_def sample_lib_def passwordOptions_def marshall_def
          res_json_def Let_def)
  have reads_index:
    "get_item_ok (snd (post_register_index sample_lib empty_world sample_registration))"
    by (simp add: post_register_index_def sample_registration_def
          get_prop_def GetItemCommand_def PutItemCommand_def
          empty_world_def template_def hash_password_def sample_lib_def passwordOptions_def marshall_def
          res_json_def Let_def)
  have thrown: "fst (post_register_index sample_lib
          (snd (post_register_index sample_lib empty_world sample_registration)) JNull) =
     Rejected TypeError"
    by (simp add: post_register_index_def get_prop_def)
  note taken = register_same_username_is_taken
      [of sample_lib empty_world sample_registration
          "\<lparr>status = 201, content = Json (message ''User registered successfully'')\<rparr>"
          "snd (post_register sample_lib empty_world sample_registration)"
          other_registration
          "snd (post_register sample_lib empty_world sample_registration)",
       THEN conjunct1]
  note taken_index = register_same_username_is_taken
      [of sample_lib empty_world sample_registration
          "\<lparr>status = 201, content = Json (message ''User registered successfully'')\<rparr>"
          "snd (post_register_index sample_lib empty_world sample_registration)"
          "JObj [(''username'', JStr ''abc'')]"
          "snd (post_register_index sample_lib empty_world sample_registration)",
       THEN conjunct2]
  have second: "post_register sample_lib
       (snd (post_register sample_lib empty_world sample_registration)) other_registration =
      (Respond \<lparr>status = 400, content = Json (message ''Username already taken'')\<rparr>,
       (snd (post_register sample_lib empty_world sample_registration))
         \<lparr>trace := trace (snd (post_register sample_lib empty_world sample_registration)) @
            [GetItem (''user#'' @ template (property other_registration ''username'')) ''user'']\<rparr>)"
    using taken first same valid reads by simp
  have second_index: "post_register_index sample_lib
       (snd (post_register_index sample_lib empty_world sample_registration))
       (JObj [(''username'', JStr ''abc'')]) =
      (Respond \<lparr>status = 400, content = Json (message ''Username already taken'')\<rparr>,
       (snd (post_register_index sample_lib empty_world sample_registration))
         \<lparr>trace := trace (snd (post_register_index sample_lib empty_world sample_registration)) @
            [GetItem (''user#'' @ template (property (JObj [(''username'', JStr ''abc'')]) ''username''))
               ''user'']\<rparr>)"
    using taken_index first_index same_index reads_index by simp
  have answered: "fst (post_register sample_lib empty_world sample_registration) =
     Respond \<lparr>status = 201, content = Json (message ''User registered successfully'')\<rparr>"
    by (subst first) simp
  show ?thesis
    using answered thrown by (simp add: second second_index)
qed

text \<open>
  C5 as stated fails on \<^verbatim>\<open>unnamed/part_000\<close>: after the registration of \<open>abc\<close> is
  answered 201 and its record stored, a registration of \<open>abc\<close> with a two-character
  password is answered 400 by the validation loop, with its message and not
  \<open>Username already taken\<close>.
\<close>

theorem register_same_username_short_password:
  "fst (post_register sample_lib empty_world sample_registration) =
     Respond \<lparr>status = 201, content = Json (message ''User registered successfully'')\<rparr> \<and>
   table (snd (post_register sample_lib empty_world sample_registration)) (''user#abc'', ''user'') \<noteq> None \<and>
   fst (post_register sample_lib (snd (post_register sample_lib empty_world sample_registration))
          (JObj [(''username'', JStr ''abc''), (''password'', JStr ''xy''),
                 (''fullname'', JStr ''Someone Else''), (''email'', JStr ''x@y.org'')])) =
     Respond \<lparr>status = 400, content = Json (JObj [(''message'',
        JStr (''Value of '' @ [CHR 0x22] @ ''password'' @ [CHR 0x22] @ '' is too short''))])\<rparr> \<and>
   fst (post_register sample_lib (snd (post_register sample_lib empty_world sample_registration))
          (JObj [(''username'', JStr ''abc''), (''password'', JStr ''xy''),
                 (''fullname'', JStr ''Someone Else''), (''email'', JStr ''x@y.org'')])) \<noteq>
     Respond \<lparr>status = 400, content = Json (JObj [(''message'', JStr ''Username already taken'')])\<rparr>"
  by (simp add: post_register_def required_def sample_registration_def
        get_prop_def js_lt_3_def GetItemCommand_def PutItemCommand_def sendWelcomeEmail_def
        empty_world_def template_def hash_password_def sample_lib_def passwordOptions_def marshall_def
        res_json_def message_def quoted_def Let_def)

end
